theory Spec2Isabelle
  imports Complex_Main "HOL-Library.Multiset" "HOL-Library.AList"
begin

section \<open>Data model\<close>

text \<open>
  The dashboard keeps every quantity in JavaScript numbers. All numbers that occur in the
  pipeline are integers (epoch milliseconds, parsed counts and their sums); they are
  modelled as \<open>int\<close>, which is exact as long as the magnitudes stay below \<open>2 ^ 53\<close>. The one
  non-integer a row property can hold is \<open>NaN\<close>, the result of \<open>undefined + n\<close>.
\<close>

datatype jsnum = Num int | NaN

text \<open>
  An hourly row is the object built in \<open>processAllFiles\<close>: the properties \<open>hour\<close> and
  \<open>sortTime\<close>, followed by one property per entry of \<open>ALL_CSV_FILES\<close> (kept as an ordered
  property list, the way \<open>Object.fromEntries\<close> spreads them).
\<close>

record row =
  hour :: string
  sortTime :: int
  props :: "(string \<times> jsnum) list"

section \<open>Time filtering (\<open>filteredData\<close>)\<close>

text \<open>
  \<open>filteredData\<close> is a memo over \<open>data\<close> and \<open>selectedRangeDays\<close> only; the body never reads
  the clock. \<open>data[data.length - 1]\<close> is only reached for a non-empty array.
\<close>

definition filteredData :: "row list \<Rightarrow> int \<Rightarrow> row list" where
  "filteredData data selectedRangeDays =
     (if length data = 0 then []
      else
        let maxDate = sortTime (data ! (length data - 1));
            rangeInMs = selectedRangeDays * 24 * 60 * 60 * 1000;
            minDate = maxDate - rangeInMs
        in filter (\<lambda>item. sortTime item \<ge> minDate) data)"

section \<open>Strings of the JavaScript runtime\<close>

text \<open>
  Strings are lists of code units below 256. \<open>is_ws\<close> is the white space that
  \<open>String.prototype.trim\<close> and \<open>parseInt\<close> strip in that range: tab, line feed, vertical tab,
  form feed, carriage return, space and no-break space.
\<close>

definition is_ws :: "char \<Rightarrow> bool" where
  "is_ws c = (of_char c \<in> {9, 10, 11, 12, 13, 32, 160 :: nat})"

definition trim :: "string \<Rightarrow> string" where
  "trim s = rev (dropWhile is_ws (rev (dropWhile is_ws s)))"

text \<open>
  \<open>s.split(c)\<close> for a one-character separator: the pieces between the separators, always at
  least one piece (the empty string splits into one empty piece).
\<close>

fun split :: "char \<Rightarrow> string \<Rightarrow> string list" where
  "split c [] = [[]]"
| "split c (x # xs) =
     (if x = c then [] # split c xs
      else (case split c xs of [] \<Rightarrow> [[x]] | y # ys \<Rightarrow> (x # y) # ys))"

text \<open>\<open>s.replace(/"/g, '')\<close> deletes every double quote.\<close>

definition strip_quotes :: "string \<Rightarrow> string" where
  "strip_quotes s = filter (\<lambda>c. c \<noteq> CHR 0x22) s"

definition is_digit :: "char \<Rightarrow> bool" where
  "is_digit c = (48 \<le> (of_char c :: nat) \<and> (of_char c :: nat) \<le> 57)"

definition digit_val :: "char \<Rightarrow> int" where
  "digit_val c = int (of_char c) - 48"

definition decimal :: "string \<Rightarrow> int" where
  "decimal ds = foldl (\<lambda>a c. 10 * a + digit_val c) 0 ds"

text \<open>
  \<open>parseInt(s, 10)\<close>: leading white space is skipped, one sign is accepted, then the longest
  run of decimal digits is read; no digit at all gives \<open>NaN\<close>, here \<open>None\<close>.
\<close>

definition parseInt10 :: "string \<Rightarrow> int option" where
  "parseInt10 s =
     (let s1 = dropWhile is_ws s;
          sign = (case s1 of [] \<Rightarrow> 1 | c # _ \<Rightarrow> if c = CHR ''-'' then - 1 else (1::int));
          s2 = (case s1 of [] \<Rightarrow> [] | c # r \<Rightarrow> if c = CHR ''-'' \<or> c = CHR ''+'' then r else s1);
          ds = takeWhile is_digit s2
      in if ds = [] then None else Some (sign * decimal ds))"

text \<open>Decimal rendering of a non-negative integer (\<open>Number.prototype.toString\<close>).\<close>

fun digits10 :: "nat \<Rightarrow> string" where
  "digits10 n =
     (if n < 10 then [char_of (48 + n)] else digits10 (n div 10) @ [char_of (48 + n mod 10)])"

definition toString :: "int \<Rightarrow> string" where
  "toString n = (if n < 0 then CHR ''-'' # digits10 (nat (- n)) else digits10 (nat n))"

text \<open>\<open>s.padStart(w, '0')\<close>.\<close>

definition padStart :: "nat \<Rightarrow> string \<Rightarrow> string" where
  "padStart w s = replicate (w - length s) CHR ''0'' @ s"

section \<open>CSV parsing (\<open>parseCSV\<close>)\<close>

record rawrecord =
  timestamp :: string
  "value" :: int

text \<open>
  The callback of \<open>lines.slice(1).map\<close>: a line with fewer than two fields becomes the
  record with the empty timestamp, which the final \<open>filter\<close> removes.
\<close>

definition parseLine :: "string \<Rightarrow> rawrecord" where
  "parseLine line =
     (let parts = split CHR '','' line in
      if length parts < 2 then \<lparr>timestamp = [], value = 0\<rparr>
      else
        let timestampStr = parts ! 0;
            valueStr = parts ! 1;
            ts = trim (strip_quotes timestampStr);
            v = parseInt10 (trim (strip_quotes valueStr))
        in \<lparr>timestamp = ts, value = (case v of None \<Rightarrow> 0 | Some n \<Rightarrow> n)\<rparr>)"

text \<open>
  \<open>!csvText\<close> holds for the empty string. The text is trimmed as a whole before it is cut
  into lines, and the first line is skipped whatever it contains.
\<close>

definition parseCSV :: "string \<Rightarrow> rawrecord list" where
  "parseCSV csvText =
     (if csvText = [] then []
      else
        let lines = split CHR 0x0A (trim csvText) in
        if length lines < 2 then []
        else filter (\<lambda>item. timestamp item \<noteq> []) (map parseLine (drop 1 lines)))"

section \<open>Dates of the JavaScript runtime\<close>

text \<open>
  What the code takes from the runtime is a parameter of the model:
  \<^item> \<open>Date_parse\<close>: the time value (epoch milliseconds) that \<open>new Date(string)\<close> holds, or
    \<open>None\<close> for an invalid date;
  \<^item> \<open>tzOffset\<close>: local time minus UTC in milliseconds, taken as one fixed offset;
  \<^item> \<open>formatLocalDay\<close>: \<open>formatter.format(new Date(y, monthIndex, d))\<close>, the en-US rendering
    with weekday, of a local calendar day given by its three numbers (the second copy of
    the application builds the date at noon of that day).
\<close>

record runtime =
  Date_parse :: "string \<Rightarrow> int option"
  tzOffset :: int
  formatLocalDay :: "jsnum \<Rightarrow> jsnum \<Rightarrow> jsnum \<Rightarrow> string"

definition msPerDay :: int where
  "msPerDay = 86400000"

definition msPerHour :: int where
  "msPerHour = 3600000"

text \<open>
  The proleptic Gregorian calendar of ECMAScript: year, month (1 to 12) and day of the month
  of a day number counted from 1970-01-01, and the day number of a calendar date.
\<close>

definition civil_from_days :: "int \<Rightarrow> int \<times> int \<times> int" where
  "civil_from_days z0 =
     (let z = z0 + 719468;
          era = z div 146097;
          doe = z - era * 146097;
          yoe = (doe - doe div 1460 + doe div 36524 - doe div 146096) div 365;
          doy = doe - (365 * yoe + yoe div 4 - yoe div 100);
          mp = (5 * doy + 2) div 153;
          d = doy - (153 * mp + 2) div 5 + 1;
          m = (if mp < 10 then mp + 3 else mp - 9);
          y = yoe + era * 400 + (if m \<le> 2 then 1 else 0)
      in (y, m, d))"

definition days_from_civil :: "int \<Rightarrow> int \<Rightarrow> int \<Rightarrow> int" where
  "days_from_civil y0 m d =
     (let y = (if m \<le> 2 then y0 - 1 else y0);
          era = y div 400;
          yoe = y - era * 400;
          doy = (153 * (if m > 2 then m - 3 else m + 9) + 2) div 5 + d - 1;
          doe = yoe * 365 + yoe div 4 - yoe div 100 + doy
      in era * 146097 + doe - 719468)"

text \<open>\<open>date.setMinutes(0, 0, 0, 0)\<close>: the start of the local hour the instant lies in.\<close>

definition setMinutes0 :: "runtime \<Rightarrow> int \<Rightarrow> int" where
  "setMinutes0 rt t = t - (t + tzOffset rt) mod msPerHour"

definition getMonth :: "runtime \<Rightarrow> int \<Rightarrow> int" where
  "getMonth rt t = fst (snd (civil_from_days ((t + tzOffset rt) div msPerDay))) - 1"

definition getDate :: "runtime \<Rightarrow> int \<Rightarrow> int" where
  "getDate rt t = snd (snd (civil_from_days ((t + tzOffset rt) div msPerDay)))"

definition getHours :: "runtime \<Rightarrow> int \<Rightarrow> int" where
  "getHours rt t = ((t + tzOffset rt) mod msPerDay) div msPerHour"

text \<open>
  \<open>date.toISOString()\<close>, always in UTC: four digits for the years 0 to 9999, a sign and six
  digits otherwise.
\<close>

definition toISOString :: "int \<Rightarrow> string" where
  "toISOString t =
     (let ymd = civil_from_days (t div msPerDay);
          y = fst ymd; m = fst (snd ymd); d = snd (snd ymd);
          r = t mod msPerDay;
          year = (if 0 \<le> y \<and> y \<le> 9999 then padStart 4 (toString y)
                  else (if y < 0 then CHR ''-'' else CHR ''+'') # padStart 6 (toString \<bar>y\<bar>))
      in year @ ''-'' @ padStart 2 (toString m) @ ''-'' @ padStart 2 (toString d) @ ''T''
         @ padStart 2 (toString (r div msPerHour)) @ '':''
         @ padStart 2 (toString ((r mod msPerHour) div 60000)) @ '':''
         @ padStart 2 (toString ((r mod 60000) div 1000)) @ ''.''
         @ padStart 3 (toString (r mod 1000)) @ ''Z'')"

section \<open>Hour labels (\<open>getHourlyKey\<close>)\<close>

definition months :: "string list" where
  "months = [''Jan'', ''Feb'', ''Mar'', ''Apr'', ''May'', ''Jun'',
             ''Jul'', ''Aug'', ''Sep'', ''Oct'', ''Nov'', ''Dec'']"

text \<open>
  \<open>months[i]\<close> inside the template string: an index outside the array reads \<open>undefined\<close>.
\<close>

definition monthName_at :: "int \<Rightarrow> string" where
  "monthName_at i = (if 0 \<le> i \<and> i < 12 then months ! nat i else ''undefined'')"

text \<open>
  The label of the hour a timestamp lies in, \<open>null\<close> (here \<open>None\<close>) for an invalid date. The
  second copy of the application returns the same label together with the time value of
  the truncated date, which \<open>addRecord\<close> below computes by \<open>setMinutes0\<close>.
\<close>

definition getHourlyKey :: "runtime \<Rightarrow> string \<Rightarrow> string option" where
  "getHourlyKey rt timestampStr =
     (case Date_parse rt timestampStr of
        None \<Rightarrow> None
      | Some t \<Rightarrow>
          let date = setMinutes0 rt t;
              monthName = monthName_at (getMonth rt date);
              day = padStart 2 (toString (getDate rt date));
              hour = padStart 2 (toString (getHours rt date))
          in Some (monthName @ ''-'' @ day @ '' '' @ hour @ '':00''))"

section \<open>A runtime to compute with\<close>

text \<open>
  A runtime in the UTC time zone whose date parser reads the one form
  \<open>YYYY-MM-DDTHH:MM:SSZ\<close> and rejects everything else, and whose day formatter prints the
  three numbers. It serves to evaluate the pipeline on concrete inputs.
\<close>

definition iso_parse :: "string \<Rightarrow> int option" where
  "iso_parse s =
     (if length s = 20 \<and> s ! 4 = CHR ''-'' \<and> s ! 7 = CHR ''-'' \<and> s ! 10 = CHR ''T''
         \<and> s ! 13 = CHR '':'' \<and> s ! 16 = CHR '':'' \<and> s ! 19 = CHR ''Z''
         \<and> list_all is_digit (take 4 s @ take 2 (drop 5 s) @ take 2 (drop 8 s)
              @ take 2 (drop 11 s) @ take 2 (drop 14 s) @ take 2 (drop 17 s))
      then
        let y = decimal (take 4 s); m = decimal (take 2 (drop 5 s));
            d = decimal (take 2 (drop 8 s)); h = decimal (take 2 (drop 11 s));
            mi = decimal (take 2 (drop 14 s)); sec = decimal (take 2 (drop 17 s))
        in if 1 \<le> m \<and> m \<le> 12 \<and> 1 \<le> d \<and> d \<le> 31 \<and> h < 24 \<and> mi < 60 \<and> sec < 60
           then Some (days_from_civil y m d * msPerDay + h * msPerHour + mi * 60000 + sec * 1000)
           else None
      else None)"

fun show_jsnum :: "jsnum \<Rightarrow> string" where
  "show_jsnum (Num n) = toString n"
| "show_jsnum NaN = ''NaN''"

definition utc_runtime :: runtime where
  "utc_runtime =
     \<lparr>Date_parse = iso_parse, tzOffset = 0,
      formatLocalDay = (\<lambda>y m d. show_jsnum y @ ''/'' @ show_jsnum m @ ''/'' @ show_jsnum d)\<rparr>"

section \<open>Fetching with retries (\<open>fetchWithRetry\<close>)\<close>

text \<open>
  The network is a parameter: \<open>net url i\<close> is how the \<open>i\<close>-th call of \<open>fetch(url)\<close> of one run
  settles, counted from 0. A call either rejects with an error message or resolves with a
  response, whose \<open>text()\<close> in turn resolves (\<open>Inr\<close>) or rejects (\<open>Inl\<close>).
\<close>

record response =
  ok :: bool
  status :: int
  statusText :: string
  text_body :: "string + string"

datatype attempt = Rejects string | Resolves response

text \<open>
  How the async function settles: it returns a text, throws an error (kept by its message),
  or falls off the end of the loop and returns \<open>undefined\<close>.
\<close>

datatype completion = Returns string | Throws string | ReturnsUndefined

text \<open>What a call does besides settling: the warnings logged and the delays waited for.\<close>

record effects =
  warnings :: "string list"
  delays :: "int list"

definition MAX_RETRIES :: nat where
  "MAX_RETRIES = 3"

definition INITIAL_DELAY_MS :: int where
  "INITIAL_DELAY_MS = 1000"

text \<open>
  The body of the \<open>try\<close> block: \<open>Inr\<close> is the text returned, \<open>Inl\<close> the message of the error
  caught.
\<close>

definition tryFetch :: "attempt \<Rightarrow> string + string" where
  "tryFetch a =
     (case a of
        Rejects message \<Rightarrow> Inl message
      | Resolves res \<Rightarrow>
          if \<not> ok res
          then Inl (''HTTP Error '' @ toString (status res) @ '': '' @ statusText res)
          else text_body res)"

text \<open>
  The loop of \<open>src/App.jsx\<close>. The delay is always a multiple of 1000, so \<open>delay / 1000\<close> is the
  integer written here as \<open>delay div 1000\<close>.
\<close>

function fetchWithRetry_loop ::
  "(string \<Rightarrow> nat \<Rightarrow> attempt) \<Rightarrow> string \<Rightarrow> string \<Rightarrow> nat \<Rightarrow> nat \<Rightarrow> int \<Rightarrow> effects
     \<Rightarrow> completion \<times> effects" where
  "fetchWithRetry_loop net url name retries i delay eff =
     (if i < retries then
        (case tryFetch (net url i) of
           Inr txt \<Rightarrow> (Returns txt, eff)
         | Inl message \<Rightarrow>
             let eff1 = eff\<lparr>warnings := warnings eff @
                   [''Fetch attempt '' @ toString (int i + 1) @ '' for '' @ name @ '' failed: ''
                    @ message @ ''. Retrying in '' @ toString (delay div 1000) @ ''s...'']\<rparr>
             in if i = retries - 1
                then (Throws (''Failed to fetch '' @ name @ '' after ''
                        @ toString (int MAX_RETRIES) @ '' attempts.''), eff1)
                else fetchWithRetry_loop net url name retries (i + 1) (delay * 2)
                       (eff1\<lparr>delays := delays eff1 @ [delay]\<rparr>))
      else (ReturnsUndefined, eff))"
  by pat_completeness auto
termination
  by (relation "measure (\<lambda>(net, url, name, retries, i, delay, eff). retries - i)") auto

definition fetchWithRetry ::
  "(string \<Rightarrow> nat \<Rightarrow> attempt) \<Rightarrow> string \<Rightarrow> string \<Rightarrow> nat \<Rightarrow> completion \<times> effects" where
  "fetchWithRetry net url name retries =
     fetchWithRetry_loop net url name retries 0 INITIAL_DELAY_MS \<lparr>warnings = [], delays = []\<rparr>"

text \<open>
  The loop of the second copy of the application (\<open>unnamed/part_000\<close>): the warning names
  no cause, and the error caught at the last attempt is thrown again as it is. The default
  number of attempts and the first delay are the literals 3 and 1000.
\<close>

function fetchWithRetry_loop_v2 ::
  "(string \<Rightarrow> nat \<Rightarrow> attempt) \<Rightarrow> string \<Rightarrow> string \<Rightarrow> nat \<Rightarrow> nat \<Rightarrow> int \<Rightarrow> effects
     \<Rightarrow> completion \<times> effects" where
  "fetchWithRetry_loop_v2 net url name retries i delay eff =
     (if i < retries then
        (case tryFetch (net url i) of
           Inr txt \<Rightarrow> (Returns txt, eff)
         | Inl message \<Rightarrow>
             let eff1 = eff\<lparr>warnings := warnings eff @
                   [''Fetch attempt '' @ toString (int i + 1) @ '' for '' @ name
                    @ '' failed. Retrying...'']\<rparr>
             in if i = retries - 1
                then (Throws message, eff1)
                else fetchWithRetry_loop_v2 net url name retries (i + 1) (delay * 2)
                       (eff1\<lparr>delays := delays eff1 @ [delay]\<rparr>))
      else (ReturnsUndefined, eff))"
  by pat_completeness auto
termination
  by (relation "measure (\<lambda>(net, url, name, retries, i, delay, eff). retries - i)") auto

definition fetchWithRetry_v2 ::
  "(string \<Rightarrow> nat \<Rightarrow> attempt) \<Rightarrow> string \<Rightarrow> string \<Rightarrow> nat \<Rightarrow> completion \<times> effects" where
  "fetchWithRetry_v2 net url name retries =
     fetchWithRetry_loop_v2 net url name retries 0 1000 \<lparr>warnings = [], delays = []\<rparr>"

section \<open>Hourly aggregation (\<open>processAllFiles\<close>)\<close>

text \<open>
  The configured files. The URL of a file only selects the network resource; it is kept as
  the path it is built from.
\<close>

record csvfile =
  path :: string
  key :: string
  name :: string

definition ALL_CSV_FILES :: "csvfile list" where
  "ALL_CSV_FILES =
     [\<lparr>path = ''orders.csv'', key = ''orders'', name = ''Orders''\<rparr>,
      \<lparr>path = ''shipping_labels.csv'', key = ''labels'', name = ''Shipping Labels''\<rparr>,
      \<lparr>path = ''total_packers.csv'', key = ''packers'', name = ''Total Packers''\<rparr>,
      \<lparr>path = ''total_pickers.csv'', key = ''pickers'', name = ''Total Pickers''\<rparr>]"

text \<open>
  \<open>Object.fromEntries\<close>: properties in the order of their first occurrence, a later entry
  for the same key replacing the value.
\<close>

definition fromEntries :: "(string \<times> jsnum) list \<Rightarrow> (string \<times> jsnum) list" where
  "fromEntries es = foldl (\<lambda>obj (k, v). AList.update k v obj) [] es"

definition newHour :: "string \<Rightarrow> int \<Rightarrow> row" where
  "newHour hourlyKey t =
     \<lparr>hour = hourlyKey, sortTime = t,
      props = fromEntries (map (\<lambda>f. (key f, Num 0)) ALL_CSV_FILES)\<rparr>"

text \<open>\<open>currentHour[key] + item.value\<close>, where a missing property reads \<open>undefined\<close>.\<close>

fun js_add :: "jsnum option \<Rightarrow> int \<Rightarrow> jsnum" where
  "js_add (Some (Num a)) b = Num (a + b)"
| "js_add _ b = NaN"

text \<open>
  One turn of \<open>parsedData.forEach\<close>. The \<open>Map\<close> is an association list in insertion order:
  \<open>set\<close> on a present key keeps its place, on a new key appends. \<open>currentHour\<close> is what \<open>get\<close>
  returns after the row has been created where it was missing.
\<close>

definition addRecord ::
  "runtime \<Rightarrow> string \<Rightarrow> (string \<times> row) list \<Rightarrow> rawrecord \<Rightarrow> (string \<times> row) list" where
  "addRecord rt k hourlyDataMap item =
     (case Date_parse rt (timestamp item) of
        None \<Rightarrow> hourlyDataMap
      | Some t \<Rightarrow>
          let sortT = setMinutes0 rt t in
          (case getHourlyKey rt (timestamp item) of
             None \<Rightarrow> hourlyDataMap
           | Some hourlyKey \<Rightarrow>
               if hourlyKey = [] then hourlyDataMap
               else
                 let m1 = (if map_of hourlyDataMap hourlyKey = None
                           then AList.update hourlyKey (newHour hourlyKey sortT) hourlyDataMap
                           else hourlyDataMap);
                     currentHour = (case map_of hourlyDataMap hourlyKey of
                                      None \<Rightarrow> newHour hourlyKey sortT
                                    | Some r \<Rightarrow> r);
                     updated = currentHour\<lparr>props :=
                       AList.update k (js_add (map_of (props currentHour) k) (value item))
                         (props currentHour)\<rparr>
                 in AList.update hourlyKey updated m1))"

definition hourlyDataMap :: "runtime \<Rightarrow> (string \<times> string) list \<Rightarrow> (string \<times> row) list" where
  "hourlyDataMap rt results =
     foldl (\<lambda>m (k, csvText). foldl (addRecord rt k) m (parseCSV csvText)) [] results"

text \<open>
  \<open>Array.from(hourlyDataMap.values()).sort(...)\<close>: the comparator orders by \<open>sortTime\<close>, and
  the sort is stable.
\<close>

definition finalChartData :: "runtime \<Rightarrow> (string \<times> string) list \<Rightarrow> row list" where
  "finalChartData rt results = sort_key sortTime (map snd (hourlyDataMap rt results))"

text \<open>
  Steps 2 and 3 of \<open>processAllFiles\<close>, once every fetch has resolved: \<open>texts f\<close> is the text
  fetched for the file \<open>f\<close>, and \<open>results_of texts\<close> is the array \<open>results\<close>.
\<close>

definition results_of :: "(csvfile \<Rightarrow> string) \<Rightarrow> (string \<times> string) list" where
  "results_of texts = map (\<lambda>f. (key f, texts f)) ALL_CSV_FILES"

definition processAllFiles :: "runtime \<Rightarrow> (csvfile \<Rightarrow> string) \<Rightarrow> row list" where
  "processAllFiles rt texts = finalChartData rt (results_of texts)"

section \<open>Summary statistics (\<open>SummaryWidget\<close>)\<close>

text \<open>
  \<open>item.orders || 0\<close>: a missing property, \<open>NaN\<close> and \<open>0\<close> all read as \<open>0\<close>.
\<close>

definition or0 :: "jsnum option \<Rightarrow> int" where
  "or0 v = (case v of None \<Rightarrow> 0 | Some NaN \<Rightarrow> 0 | Some (Num n) \<Rightarrow> n)"

text \<open>
  A peak day. The initial value of \<open>src/App.jsx\<close> carries a third property \<open>dayName\<close>, which
  the replacing objects and the second copy of the application do not have.
\<close>

record peak =
  count_p :: int
  date :: string
  dayName :: "string option"

text \<open>
  Minimum, maximum and average of a list of hourly values. Quotients are JavaScript
  doubles; the model computes them exactly, as rationals. The \<open>defaults\<close> object of the
  empty series has a fourth property \<open>count\<close>.
\<close>

record stats =
  count_d :: "int option"
  min_s :: rat
  max_s :: rat
  avg :: rat

record daycounts =
  orders :: int
  labels :: int

record summary =
  maxDailyOrders :: peak
  maxDailyLabels :: peak
  labelsPerLabor :: stats
  ordersStats :: stats
  labelsStats :: stats
  laborStats :: stats

text \<open>What \<open>data.forEach\<close> fills: the day map (in insertion order) and the four arrays.\<close>

record collected =
  dailyMap :: "(string \<times> daycounts) list"
  hourlyEfficiency :: "rat list"
  hourlyOrders :: "rat list"
  hourlyLabels :: "rat list"
  hourlyLabor :: "rat list"

text \<open>The three constants computed at the head of the \<open>forEach\<close> callback.\<close>

definition item_labor :: "row \<Rightarrow> int" where
  "item_labor item = or0 (map_of (props item) ''packers'') + or0 (map_of (props item) ''pickers'')"

definition item_labels :: "row \<Rightarrow> int" where
  "item_labels item = or0 (map_of (props item) ''labels'')"

definition item_orders :: "row \<Rightarrow> int" where
  "item_orders item = or0 (map_of (props item) ''orders'')"

text \<open>
  \<open>new Date(sortTime).toISOString().split('T')[0]\<close>: the UTC calendar date. The time values
  come from \<open>getTime\<close> of valid dates, for which \<open>toISOString\<close> does not throw.
\<close>

definition dateKey :: "int \<Rightarrow> string" where
  "dateKey t = hd (split CHR ''T'' (toISOString t))"

definition collect_item :: "collected \<Rightarrow> row \<Rightarrow> collected" where
  "collect_item acc item =
     (let labor = item_labor item;
          labels_i = item_labels item;
          orders_i = item_orders item;
          acc1 = acc\<lparr>hourlyOrders := hourlyOrders acc @ [of_int orders_i],
                    hourlyLabels := hourlyLabels acc @ [of_int labels_i],
                    hourlyLabor := hourlyLabor acc @ [of_int labor]\<rparr>;
          acc2 = (if labor > 0
                  then acc1\<lparr>hourlyEfficiency :=
                         hourlyEfficiency acc1 @ [of_int labels_i / of_int labor]\<rparr>
                  else acc1)
      in if sortTime item \<noteq> 0 then
           let currentDay = (case map_of (dailyMap acc2) (dateKey (sortTime item)) of
                               None \<Rightarrow> \<lparr>orders = 0, labels = 0\<rparr>
                             | Some c \<Rightarrow> c)
           in acc2\<lparr>dailyMap := AList.update (dateKey (sortTime item))
                  \<lparr>orders = orders currentDay + orders_i, labels = labels currentDay + labels_i\<rparr>
                  (dailyMap acc2)\<rparr>
         else acc2)"

definition collect :: "row list \<Rightarrow> collected" where
  "collect data =
     foldl collect_item
       \<lparr>dailyMap = [], hourlyEfficiency = [], hourlyOrders = [], hourlyLabels = [],
        hourlyLabor = []\<rparr> data"

text \<open>
  \<open>Number(s)\<close> on the pieces of a date key: the empty string is \<open>0\<close>, an optionally signed
  run of digits is its value, anything else is \<open>NaN\<close>.
\<close>

definition Number_str :: "string \<Rightarrow> jsnum" where
  "Number_str s0 =
     (let s = trim s0;
          ds = (case s of [] \<Rightarrow> [] | c # r \<Rightarrow> if c = CHR ''-'' \<or> c = CHR ''+'' then r else s)
      in if s = [] then Num 0
         else if ds \<noteq> [] \<and> list_all is_digit ds
         then Num ((if hd s = CHR ''-'' then - 1 else 1) * decimal ds)
         else NaN)"

text \<open>An array element read by destructuring; a missing one is \<open>undefined\<close>, a \<open>NaN\<close> here.\<close>

definition piece :: "jsnum list \<Rightarrow> nat \<Rightarrow> jsnum" where
  "piece xs i = (if i < length xs then xs ! i else NaN)"

fun js_pred :: "jsnum \<Rightarrow> jsnum" where
  "js_pred (Num n) = Num (n - 1)"
| "js_pred NaN = NaN"

definition formattedDate :: "runtime \<Rightarrow> string \<Rightarrow> string" where
  "formattedDate rt day_date =
     (let ymd = map Number_str (split CHR ''-'' day_date)
      in formatLocalDay rt (piece ymd 0) (js_pred (piece ymd 1)) (piece ymd 2))"

text \<open>
  One turn of \<open>dailyAggregates.forEach\<close>; a day replaces the current maximum only when its
  sum is strictly greater.
\<close>

definition peak_step :: "runtime \<Rightarrow> peak \<times> peak \<Rightarrow> string \<times> daycounts \<Rightarrow> peak \<times> peak" where
  "peak_step rt maxima day =
     (let fd = formattedDate rt (fst day);
          mo = (if orders (snd day) > count_p (fst maxima)
                then \<lparr>count_p = orders (snd day), date = fd, dayName = None\<rparr>
                else fst maxima);
          ml = (if labels (snd day) > count_p (snd maxima)
                then \<lparr>count_p = labels (snd day), date = fd, dayName = None\<rparr>
                else snd maxima)
      in (mo, ml))"

definition getStats :: "rat list \<Rightarrow> stats" where
  "getStats arr =
     (if length arr = 0 then \<lparr>count_d = None, min_s = 0, max_s = 0, avg = 0\<rparr>
      else
        let sum = foldl (+) 0 arr
        in \<lparr>count_d = None, min_s = foldl min (hd arr) (tl arr),
            max_s = foldl max (hd arr) (tl arr), avg = sum / of_nat (length arr)\<rparr>)"

definition aggregates :: "runtime \<Rightarrow> row list \<Rightarrow> summary" where
  "aggregates rt data =
     (let defaults = \<lparr>count_d = Some 0, min_s = 0, max_s = 0, avg = 0\<rparr>
      in if length data = 0 then
           \<lparr>maxDailyOrders = \<lparr>count_p = 0, date = ''N/A'', dayName = None\<rparr>,
            maxDailyLabels = \<lparr>count_p = 0, date = ''N/A'', dayName = None\<rparr>,
            labelsPerLabor = defaults, ordersStats = defaults, labelsStats = defaults,
            laborStats = defaults\<rparr>
         else
           let c = collect data;
               dailyAggregates = dailyMap c;
               maxima = foldl (peak_step rt)
                 (\<lparr>count_p = 0, date = ''N/A'', dayName = Some ''N/A''\<rparr>,
                  \<lparr>count_p = 0, date = ''N/A'', dayName = Some ''N/A''\<rparr>) dailyAggregates
           in \<lparr>maxDailyOrders = fst maxima, maxDailyLabels = snd maxima,
               labelsPerLabor = getStats (hourlyEfficiency c),
               ordersStats = getStats (hourlyOrders c),
               labelsStats = getStats (hourlyLabels c),
               laborStats = getStats (hourlyLabor c)\<rparr>)"

section \<open>Notions used to state the properties\<close>

text \<open>
  The parsed records of all sources, each with the key of its source, in the order in
  which the two nested \<open>forEach\<close> loops visit them.
\<close>

definition records :: "(string \<times> string) list \<Rightarrow> (string \<times> rawrecord) list" where
  "records results = concat (map (\<lambda>(k, csvText). map (Pair k) (parseCSV csvText)) results)"

text \<open>The records of source \<open>k\<close> whose timestamp has the hour label \<open>L\<close>.\<close>

definition with_label :: "runtime \<Rightarrow> string \<Rightarrow> string \<Rightarrow> string \<times> rawrecord \<Rightarrow> bool" where
  "with_label rt k L rec = (fst rec = k \<and> getHourlyKey rt (timestamp (snd rec)) = Some L)"

definition contribution ::
  "runtime \<Rightarrow> (string \<times> rawrecord) list \<Rightarrow> string \<Rightarrow> string \<Rightarrow> int" where
  "contribution rt recs k L = sum_list (map (\<lambda>rec. value (snd rec)) (filter (with_label rt k L) recs))"

text \<open>The hour bucket of a timestamp: its instant truncated to the hour.\<close>

definition hourBucket :: "runtime \<Rightarrow> string \<Rightarrow> int option" where
  "hourBucket rt ts = map_option (setMinutes0 rt) (Date_parse rt ts)"

text \<open>The rows of one UTC calendar day that take part in the daily sums.\<close>

definition on_day :: "string \<Rightarrow> row \<Rightarrow> bool" where
  "on_day d item = (sortTime item \<noteq> 0 \<and> dateKey (sortTime item) = d)"

text \<open>
  Auxiliary notions for the proofs about the aggregation: the update of one property of a
  row, one turn of the loops on a record paired with its key, the value a row of the map
  holds for a key, and the invariant that the keys of the map are distinct and every row
  is stored under its own label.
\<close>

definition bump :: "string \<Rightarrow> int \<Rightarrow> row \<Rightarrow> row" where
  "bump k v r = r\<lparr>props := AList.update k (js_add (map_of (props r) k) v) (props r)\<rparr>"

definition addRec ::
  "runtime \<Rightarrow> (string \<times> row) list \<Rightarrow> string \<times> rawrecord \<Rightarrow> (string \<times> row) list" where
  "addRec rt m rec = addRecord rt (fst rec) m (snd rec)"

definition cell :: "(string \<times> row) list \<Rightarrow> string \<Rightarrow> string \<Rightarrow> jsnum option" where
  "cell m L k = (case map_of m L of None \<Rightarrow> None | Some r \<Rightarrow> map_of (props r) k)"

definition rows_ok :: "(string \<times> row) list \<Rightarrow> bool" where
  "rows_ok m = (distinct (map fst m) \<and> list_all (\<lambda>p. hour (snd p) = fst p) m)"

section \<open>Concrete inputs\<close>

text \<open>One source with two records in the same hour.\<close>

definition two_orders :: "(string \<times> string) list" where
  "two_orders =
     [(''orders'',
       ''timestamp,value\<newline>2024-06-01T10:15:00Z,7\<newline>2024-06-01T10:50:00Z,3'')]"

text \<open>Only the orders file has a row; the other three files hold their header alone.\<close>

definition only_orders :: "csvfile \<Rightarrow> string" where
  "only_orders f =
     (if key f = ''orders'' then ''timestamp,value\<newline>2024-06-01T10:15:00Z,7'' else ''timestamp,value'')"

text \<open>
  Three records of one source: two in one hour of 2024 and one in the same day and hour of
  2023.
\<close>

definition label_collision :: "(string \<times> string) list" where
  "label_collision =
     [(''orders'',
       ''timestamp,value\<newline>2024-10-21T13:00:00Z,1\<newline>2024-10-21T13:30:00Z,2\<newline>2023-10-21T13:00:00Z,4'')]"

text \<open>Two records of one source, the same day and hour one year apart.\<close>

definition year_apart :: "(string \<times> string) list" where
  "year_apart =
     [(''orders'',
       ''timestamp,value\<newline>2023-10-21T13:00:00Z,1\<newline>2024-10-21T13:00:00Z,2'')]"

text \<open>
  Ten rows at midnight UTC of 2024-01-01 to 2024-01-10; 1704067200000 is
  2024-01-01T00:00:00Z.
\<close>

definition jan_row :: "nat \<Rightarrow> row" where
  "jan_row i =
     newHour (''Jan-'' @ padStart 2 (toString (int i + 1)) @ '' 00:00'')
       (1704067200000 + int i * 86400000)"

definition jan_series :: "row list" where
  "jan_series = map jan_row [0..<10]"

text \<open>
  Three networks: one that always answers 500, one that is unreachable, and one that
  answers 500 twice and then succeeds.
\<close>

definition failing500 :: response where
  "failing500 = \<lparr>ok = False, status = 500, statusText = ''Internal Server Error'', text_body = Inr []\<rparr>"

definition net_500 :: "string \<Rightarrow> nat \<Rightarrow> attempt" where
  "net_500 url i = Resolves failing500"

definition net_down :: "string \<Rightarrow> nat \<Rightarrow> attempt" where
  "net_down url i = Rejects ''Failed to fetch''"

definition net_third :: "string \<Rightarrow> nat \<Rightarrow> attempt" where
  "net_third url i =
     (if i < 2 then Resolves failing500
      else Resolves \<lparr>ok = True, status = 200, statusText = ''OK'', text_body = Inr ''timestamp,value''\<rparr>)"

text \<open>The input of property P6 of the specification.\<close>

definition p6_input :: string where
  \<open>p6_input = ''header\<newline>"2024-01-01T00:00:00Z","5"\<newline>badrow\<newline>,\<newline>2024-01-01T01:00:00Z,notanumber\<newline>''\<close>



definition quiet_row :: row where
  "quiet_row =
     \<lparr>hour = ''Jan-01 00:00'', sortTime = 1704067200000,
      props = [(''orders'', Num 0), (''labels'', Num 0), (''packers'', Num 1),
               (''pickers'', Num 1)]\<rparr>"


text \<open>
  The sum of a metric over the rows of one UTC calendar day, as accumulated in the day
  map.
\<close>

definition day_total :: "(row \<Rightarrow> int) \<Rightarrow> row list \<Rightarrow> string \<Rightarrow> int" where
  "day_total metric data d = sum_list (map metric (filter (on_day d) data))"

section \<open>Properties of the time filter\<close>

lemma filteredData_Nil: "filteredData [] d = []"
  by (simp add: filteredData_def)

lemma filteredData_filter:
  "filteredData data d =
     filter (\<lambda>item. sortTime (last data) - d * 86400000 \<le> sortTime item) data"
  by (cases "data = []") (simp_all add: filteredData_def last_conv_nth mult.commute)

text \<open>
  Claim C2. For every series and every window of \<open>d\<close> days, \<open>filteredData\<close> returns exactly
  the rows whose \<open>sortTime\<close> is at least the \<open>sortTime\<close> of the last row minus
  \<open>d * 86400000\<close> milliseconds, in their original order; the anchor is the last row of the
  series itself, and the empty series yields the empty result.
\<close>

theorem filteredData_rule:
  "filteredData data d =
     filter (\<lambda>item. sortTime (last data) - d * 86400000 \<le> sortTime item) data
   \<and> filteredData [] d = []"
  using filteredData_filter [of data d] filteredData_Nil [of d] by simp

section \<open>Properties of the aggregation\<close>

lemma getHourlyKey_Some:
  "getHourlyKey rt ts = Some L \<Longrightarrow> L \<noteq> [] \<and> (\<exists>t. Date_parse rt ts = Some t)"
  by (auto simp: getHourlyKey_def Let_def split: option.splits)

lemma getHourlyKey_None: "getHourlyKey rt ts = None \<longleftrightarrow> Date_parse rt ts = None"
  by (auto simp: getHourlyKey_def Let_def split: option.splits)

lemma addRecord_unfold:
  "addRecord rt k m item =
     (case getHourlyKey rt (timestamp item) of
        None \<Rightarrow> m
      | Some L \<Rightarrow>
          AList.update L
            (bump k (value item)
               (case map_of m L of
                  None \<Rightarrow> newHour L (setMinutes0 rt (the (Date_parse rt (timestamp item))))
                | Some r \<Rightarrow> r)) m)"
  by (auto simp: addRecord_def bump_def Let_def getHourlyKey_None
      split: option.splits dest: getHourlyKey_Some)

lemma hourlyDataMap_foldl:
  "foldl (\<lambda>m (k, csvText). foldl (addRecord rt k) m (parseCSV csvText)) m0 results
     = foldl (addRec rt) m0 (records results)"
proof (induction results arbitrary: m0)
  case Nil
  show ?case by (simp add: records_def)
next
  case (Cons a results)
  obtain k csv where a: "a = (k, csv)" by (cases a)
  have inner: "foldl (addRecord rt k) m xs = foldl (addRec rt) m (map (Pair k) xs)" for m xs
    by (induction xs arbitrary: m) (simp_all add: addRec_def)
  have "records (a # results) = map (Pair k) (parseCSV csv) @ records results"
    by (simp add: records_def a)
  then show ?case using Cons.IH by (simp add: a inner)
qed

lemma hourlyDataMap_records: "hourlyDataMap rt results = foldl (addRec rt) [] (records results)"
  by (simp add: hourlyDataMap_def hourlyDataMap_foldl)

lemma newHour_props:
  "k \<in> key ` set ALL_CSV_FILES \<Longrightarrow> map_of (props (newHour L t)) k = Some (Num 0)"
  by (auto simp: newHour_def fromEntries_def ALL_CSV_FILES_def)

lemma hour_bump [simp]: "hour (bump k v r) = hour r"
  by (simp add: bump_def)

lemma sortTime_bump [simp]: "sortTime (bump k v r) = sortTime r"
  by (simp add: bump_def)

lemma props_bump: "map_of (props (bump k v r)) k' =
   (if k' = k then Some (js_add (map_of (props r) k) v) else map_of (props r) k')"
  by (simp add: bump_def update_conv')

lemma hour_newHour [simp]: "hour (newHour L t) = L"
  by (simp add: newHour_def)

lemma rows_ok_map_of: "rows_ok m \<Longrightarrow> map_of m L = Some r \<Longrightarrow> hour r = L"
  by (auto simp: rows_ok_def list_all_iff dest!: map_of_SomeD)

lemma set_update_subset: "set (AList.update k v al) \<subseteq> insert (k, v) (set al)"
  by (induction al) auto

lemma rows_ok_update:
  assumes "rows_ok m" "hour r = L"
  shows "rows_ok (AList.update L r m)"
  using assms set_update_subset [of L r m] unfolding rows_ok_def
  by (auto simp: distinct_update list_all_iff)

lemma rows_ok_addRec: "rows_ok m \<Longrightarrow> rows_ok (addRec rt m rec)"
  by (auto simp: addRec_def addRecord_unfold split: option.splits
      intro!: rows_ok_update dest: rows_ok_map_of)

lemma keys_addRec:
  "fst ` set (addRec rt m rec) =
     fst ` set m \<union> (case getHourlyKey rt (timestamp (snd rec)) of None \<Rightarrow> {} | Some L \<Rightarrow> {L})"
  by (auto simp: addRec_def addRecord_unfold dom_update split: option.splits)

lemma rows_ok_foldl: "rows_ok (foldl (addRec rt) [] recs)"
proof (induction recs rule: rev_induct)
  case Nil
  show ?case by (simp add: rows_ok_def)
next
  case (snoc x xs)
  then show ?case by (simp add: rows_ok_addRec)
qed

lemma keys_foldl:
  "fst ` set (foldl (addRec rt) [] recs) =
     {L. \<exists>rec \<in> set recs. getHourlyKey rt (timestamp (snd rec)) = Some L}"
  by (induction recs rule: rev_induct) (auto simp: keys_addRec split: option.splits)

lemma contribution_snoc:
  "contribution rt (recs @ [rec]) k L =
     contribution rt recs k L + (if with_label rt k L rec then value (snd rec) else 0)"
  by (simp add: contribution_def)

lemma contribution_absent:
  "L \<notin> fst ` set (foldl (addRec rt) [] recs) \<Longrightarrow> contribution rt recs k L = 0"
proof -
  assume "L \<notin> fst ` set (foldl (addRec rt) [] recs)"
  then have "filter (with_label rt k L) recs = []"
    unfolding keys_foldl by (auto simp: filter_empty_conv with_label_def)
  then show ?thesis by (simp add: contribution_def)
qed

lemma cell_foldl:
  assumes k: "k \<in> key ` set ALL_CSV_FILES"
  shows "L \<in> fst ` set (foldl (addRec rt) [] recs) \<Longrightarrow>
         cell (foldl (addRec rt) [] recs) L k = Some (Num (contribution rt recs k L))"
proof (induction recs rule: rev_induct)
  case Nil
  then show ?case by simp
next
  case (snoc rec recs)
  let ?M = "foldl (addRec rt) [] recs"
  show ?case
  proof (cases "getHourlyKey rt (timestamp (snd rec))")
    case None
    then have "addRec rt ?M rec = ?M" by (simp add: addRec_def addRecord_unfold)
    moreover have "\<not> with_label rt k L rec" using None by (simp add: with_label_def)
    ultimately show ?thesis using snoc by (simp add: contribution_snoc)
  next
    case (Some L0)
    show ?thesis
    proof (cases "L = L0")
      case False
      then have "cell (addRec rt ?M rec) L k = cell ?M L k"
        using Some by (simp add: cell_def addRec_def addRecord_unfold update_conv')
      moreover have "L \<in> fst ` set ?M"
        using snoc.prems False Some by (auto simp: keys_addRec)
      moreover have "\<not> with_label rt k L rec" using Some False by (simp add: with_label_def)
      ultimately show ?thesis using snoc.IH by (simp add: contribution_snoc)
    next
      case True
      have old: "(case map_of ?M L of None \<Rightarrow> Some (Num 0) | Some r \<Rightarrow> map_of (props r) k)
                   = Some (Num (contribution rt recs k L))"
      proof (cases "map_of ?M L")
        case None
        then have "L \<notin> fst ` set ?M" by (simp add: map_of_eq_None_iff)
        then show ?thesis using None by (simp add: contribution_absent)
      next
        case (Some r)
        then have "L \<in> fst ` set ?M" by (metis map_of_eq_None_iff option.distinct(1))
        then show ?thesis using snoc.IH Some by (simp add: cell_def)
      qed
      define r0 where "r0 = (case map_of ?M L0 of
          None \<Rightarrow> newHour L0 (setMinutes0 rt (the (Date_parse rt (timestamp (snd rec)))))
        | Some r \<Rightarrow> r)"
      have step: "addRec rt ?M rec = AList.update L0 (bump (fst rec) (value (snd rec)) r0) ?M"
        unfolding addRec_def addRecord_unfold r0_def using Some by simp
      have r0: "map_of (props r0) k = Some (Num (contribution rt recs k L))"
        using old k True unfolding r0_def by (simp add: newHour_props split: option.splits)
      have "cell (addRec rt ?M rec) L k = map_of (props (bump (fst rec) (value (snd rec)) r0)) k"
        unfolding step cell_def using True by (simp add: update_conv')
      also have "\<dots> = Some (Num (contribution rt (recs @ [rec]) k L))"
        using r0 Some True by (auto simp: props_bump contribution_snoc with_label_def)
      finally show ?thesis by simp
    qed
  qed
qed


lemma set_final: "set (finalChartData rt results) = snd ` set (hourlyDataMap rt results)"
  by (simp add: finalChartData_def)

lemma hour_rows: "rows_ok m \<Longrightarrow> map (hour \<circ> snd) m = map fst m"
  by (simp add: rows_ok_def list_all_iff)

lemma final_cell:
  assumes k: "k \<in> key ` set ALL_CSV_FILES" and r: "r \<in> set (finalChartData rt results)"
  shows "map_of (props r) k = Some (Num (contribution rt (records results) k (hour r)))"
proof -
  let ?M = "foldl (addRec rt) [] (records results)"
  have ok: "rows_ok ?M" by (rule rows_ok_foldl)
  from r obtain L where mem: "(L, r) \<in> set ?M"
    by (auto simp: set_final hourlyDataMap_records)
  then have L: "hour r = L" using ok by (auto simp: rows_ok_def list_all_iff)
  have "map_of ?M L = Some r" using ok mem by (simp add: rows_ok_def)
  then have "cell ?M L k = map_of (props r) k" by (simp add: cell_def)
  moreover have "L \<in> fst ` set ?M" using mem by force
  ultimately show ?thesis using cell_foldl [OF k, of L rt "records results"] L by simp
qed

lemma final_hours:
  "set (map hour (finalChartData rt results)) =
     {L. \<exists>rec \<in> set (records results). getHourlyKey rt (timestamp (snd rec)) = Some L}"
proof -
  let ?M = "foldl (addRec rt) [] (records results)"
  have "set (map hour (finalChartData rt results)) = set (map (hour \<circ> snd) ?M)"
    by (simp add: finalChartData_def hourlyDataMap_records image_image)
  also have "\<dots> = set (map fst ?M)"
    by (simp only: hour_rows [OF rows_ok_foldl])
  finally show ?thesis by (simp add: keys_foldl)
qed

lemma distinct_map_sort_key: "distinct (map f (sort_key g xs)) = distinct (map f xs)"
  by (simp add: distinct_map)

lemma final_distinct: "distinct (map hour (finalChartData rt results))"
proof -
  let ?M = "foldl (addRec rt) [] (records results)"
  have "distinct (map fst ?M)"
    using rows_ok_foldl [of rt "records results"] by (simp add: rows_ok_def)
  then have "distinct (map (hour \<circ> snd) ?M)"
    by (simp only: hour_rows [OF rows_ok_foldl])
  then have "distinct (map hour (map snd ?M))"
    by (simp only: map_map)
  then have "distinct (map hour (sort_key sortTime (map snd ?M)))"
    by (simp only: distinct_map_sort_key)
  then show ?thesis by (simp add: finalChartData_def hourlyDataMap_records)
qed

lemma final_sorted: "sorted (map sortTime (finalChartData rt results))"
  by (simp add: finalChartData_def)

lemma distinct_filter_single:
  "distinct (map f xs) \<Longrightarrow> x \<in> set xs \<Longrightarrow> filter (\<lambda>y. f y = f x) xs = [x]"
proof (induction xs)
  case Nil
  then show ?case by simp
next
  case (Cons a xs)
  show ?case
  proof (cases "a = x")
    case True
    from Cons.prems True have "f x \<notin> set (map f xs)" by simp
    then have "\<forall>y \<in> set xs. f y \<noteq> f x" by (metis image_eqI set_map)
    then have "filter (\<lambda>y. f y = f x) xs = []" by (simp add: filter_empty_conv)
    then show ?thesis using True by simp
  next
    case False
    then have "x \<in> set xs" using Cons.prems by simp
    moreover have "f a \<noteq> f x" using Cons.prems \<open>x \<in> set xs\<close> by auto
    ultimately show ?thesis using Cons by simp
  qed
qed

lemma contribution_mset:
  "contribution rt recs k L =
     sum_mset (image_mset (\<lambda>rec. value (snd rec)) (mset (filter (with_label rt k L) recs)))"
  unfolding contribution_def by (metis mset_map sum_mset_sum_list)

text \<open>
  Claim C6, as amended. Rows are kept per hour label, and a label has no year. When exactly
  two records of one configured source carry the label \<open>L\<close>, in whatever order and among
  whatever other records they arrive, the finished series has exactly one row for \<open>L\<close>, and
  its value for that source is the sum of the two values. In general the value a row holds
  for a configured source is the sum of the values of all records of that source that carry
  the row's label, those of another year included.
\<close>

theorem sum_invariant:
  assumes k: "k \<in> key ` set ALL_CSV_FILES"
  shows "(mset (filter (with_label rt k L) (records results)) = {#(k, r1), (k, r2)#} \<longrightarrow>
           (\<exists>row. filter (\<lambda>r. hour r = L) (finalChartData rt results) = [row]
              \<and> map_of (props row) k = Some (Num (value r1 + value r2))))
         \<and> (\<forall>row \<in> set (finalChartData rt results).
              map_of (props row) k =
                Some (Num (contribution rt (records results) k (hour row))))"
proof (intro conjI impI ballI)
  assume two: "mset (filter (with_label rt k L) (records results)) = {#(k, r1), (k, r2)#}"
  have "(k, r1) \<in># mset (filter (with_label rt k L) (records results))"
    unfolding two by simp
  then have "(k, r1) \<in> set (records results)" and "with_label rt k L (k, r1)"
    by simp_all
  then have "L \<in> set (map hour (finalChartData rt results))"
    unfolding final_hours by (force simp: with_label_def)
  then obtain row where row: "row \<in> set (finalChartData rt results)" and L: "hour row = L"
    by auto
  have "filter (\<lambda>r. hour r = hour row) (finalChartData rt results) = [row]"
    using final_distinct row by (rule distinct_filter_single)
  moreover have "contribution rt (records results) k L = value r1 + value r2"
    unfolding contribution_mset two by simp
  ultimately show "\<exists>row. filter (\<lambda>r. hour r = L) (finalChartData rt results) = [row]
      \<and> map_of (props row) k = Some (Num (value r1 + value r2))"
    using final_cell [OF k row] L by auto
next
  fix row assume "row \<in> set (finalChartData rt results)"
  then show "map_of (props row) k = Some (Num (contribution rt (records results) k (hour row)))"
    by (rule final_cell [OF k])
qed

lemma two_orders_records:
  "records two_orders =
     [(''orders'', \<lparr>timestamp = ''2024-06-01T10:15:00Z'', value = 7\<rparr>),
      (''orders'', \<lparr>timestamp = ''2024-06-01T10:50:00Z'', value = 3\<rparr>)]"
  by code_simp

lemma key_1015: "getHourlyKey utc_runtime ''2024-06-01T10:15:00Z'' = Some ''Jun-01 10:00''"
  by code_simp

lemma key_1050: "getHourlyKey utc_runtime ''2024-06-01T10:50:00Z'' = Some ''Jun-01 10:00''"
  by code_simp

lemma label_collision_records:
  "records label_collision =
     [(''orders'', \<lparr>timestamp = ''2024-10-21T13:00:00Z'', value = 1\<rparr>),
      (''orders'', \<lparr>timestamp = ''2024-10-21T13:30:00Z'', value = 2\<rparr>),
      (''orders'', \<lparr>timestamp = ''2023-10-21T13:00:00Z'', value = 4\<rparr>)]"
  by code_simp

lemma label_collision_rows:
  "finalChartData utc_runtime label_collision =
     [\<lparr>hour = ''Oct-21 13:00'', sortTime = 1729515600000,
       props = [(''orders'', Num 7), (''labels'', Num 0), (''packers'', Num 0),
                (''pickers'', Num 0)]\<rparr>]"
  by code_simp

lemma label_collision_keys:
  "getHourlyKey utc_runtime ''2024-10-21T13:00:00Z'' = Some ''Oct-21 13:00''"
  "getHourlyKey utc_runtime ''2024-10-21T13:30:00Z'' = Some ''Oct-21 13:00''"
  "getHourlyKey utc_runtime ''2023-10-21T13:00:00Z'' = Some ''Oct-21 13:00''"
  by code_simp+

lemma label_collision_buckets:
  "hourBucket utc_runtime ''2024-10-21T13:00:00Z'' = Some 1729515600000"
  "hourBucket utc_runtime ''2024-10-21T13:30:00Z'' = Some 1729515600000"
  "hourBucket utc_runtime ''2023-10-21T13:00:00Z'' = Some 1697893200000"
  by code_simp+

theorem sum_invariant_witness:
  "(\<exists>row. filter (\<lambda>r. hour r = ''Jun-01 10:00'') (finalChartData utc_runtime two_orders) = [row]
         \<and> map_of (props row) ''orders'' = Some (Num (7 + 3)))
   \<and> map_of (props (hd (finalChartData utc_runtime label_collision))) ''orders''
        = Some (Num (1 + 2 + 4))"
proof -
  have k: "''orders'' \<in> key ` set ALL_CSV_FILES" by (simp add: ALL_CSV_FILES_def)
  have two: "mset (filter (with_label utc_runtime ''orders'' ''Jun-01 10:00'') (records two_orders))
      = {#(''orders'', \<lparr>timestamp = ''2024-06-01T10:15:00Z'', value = 7\<rparr>),
          (''orders'', \<lparr>timestamp = ''2024-06-01T10:50:00Z'', value = 3\<rparr>)#}"
    by (simp add: two_orders_records with_label_def key_1015 key_1050)
  have row: "hd (finalChartData utc_runtime label_collision)
               \<in> set (finalChartData utc_runtime label_collision)"
    by (simp add: label_collision_rows)
  have all: "contribution utc_runtime (records label_collision) ''orders''
               (hour (hd (finalChartData utc_runtime label_collision))) = 1 + 2 + 4"
    by (simp add: contribution_def label_collision_records label_collision_rows with_label_def
        label_collision_keys)
  from sum_invariant [OF k, of utc_runtime "''Jun-01 10:00''" two_orders
      "\<lparr>timestamp = ''2024-06-01T10:15:00Z'', value = 7\<rparr>"
      "\<lparr>timestamp = ''2024-06-01T10:50:00Z'', value = 3\<rparr>"] two
  have first: "\<exists>row. filter (\<lambda>r. hour r = ''Jun-01 10:00'') (finalChartData utc_runtime two_orders) = [row]
         \<and> map_of (props row) ''orders'' = Some (Num (7 + 3))"
    by simp
  from sum_invariant [OF k, of utc_runtime "''Jun-01 10:00''" label_collision
      "\<lparr>timestamp = ''2024-06-01T10:15:00Z'', value = 7\<rparr>"
      "\<lparr>timestamp = ''2024-06-01T10:50:00Z'', value = 3\<rparr>"] row
  have "map_of (props (hd (finalChartData utc_runtime label_collision))) ''orders''
          = Some (Num (contribution utc_runtime (records label_collision) ''orders''
               (hour (hd (finalChartData utc_runtime label_collision)))))"
    by blast
  then have second: "map_of (props (hd (finalChartData utc_runtime label_collision))) ''orders''
        = Some (Num (1 + 2 + 4))"
    by (simp only: all)
  from first second show ?thesis by (rule conjI)
qed

text \<open>
  The claim as stated fails: the two records of 2024 lie in one hour bucket and are the
  only records of their source in it, yet the row holds 7 and not their sum 3, because the
  record of 2023, of another hour bucket with the same label, is added to the same row.
\<close>

theorem sum_invariant_counterexample:
  "records label_collision =
     [(''orders'', \<lparr>timestamp = ''2024-10-21T13:00:00Z'', value = 1\<rparr>),
      (''orders'', \<lparr>timestamp = ''2024-10-21T13:30:00Z'', value = 2\<rparr>),
      (''orders'', \<lparr>timestamp = ''2023-10-21T13:00:00Z'', value = 4\<rparr>)]
   \<and> hourBucket utc_runtime ''2024-10-21T13:00:00Z'' = Some 1729515600000
   \<and> hourBucket utc_runtime ''2024-10-21T13:30:00Z'' = Some 1729515600000
   \<and> hourBucket utc_runtime ''2023-10-21T13:00:00Z'' = Some 1697893200000
   \<and> finalChartData utc_runtime label_collision =
       [\<lparr>hour = ''Oct-21 13:00'', sortTime = 1729515600000,
         props = [(''orders'', Num 7), (''labels'', Num 0), (''packers'', Num 0),
                  (''pickers'', Num 0)]\<rparr>]
   \<and> map_of (props (hd (finalChartData utc_runtime label_collision))) ''orders''
       \<noteq> Some (Num (1 + 2))"
  by (simp add: label_collision_records label_collision_buckets label_collision_rows)

lemma same_bucket_same_key:
  "hourBucket rt ts1 = hourBucket rt ts2 \<Longrightarrow> getHourlyKey rt ts1 = getHourlyKey rt ts2"
  by (cases "Date_parse rt ts1"; cases "Date_parse rt ts2")
     (simp_all add: hourBucket_def getHourlyKey_def Let_def)

text \<open>
  Claim C7. Every row of the series that \<open>processAllFiles\<close> produces holds, for every
  configured source key, a defined number, and that number is 0 when no record of the source
  fell into the row's hour.
\<close>

theorem default_zero_invariant:
  "\<forall>row \<in> set (processAllFiles rt texts). \<forall>f \<in> set ALL_CSV_FILES.
     (\<exists>n. map_of (props row) (key f) = Some (Num n))
     \<and> (filter (with_label rt (key f) (hour row)) (records (results_of texts)) = []
          \<longrightarrow> map_of (props row) (key f) = Some (Num 0))"
proof (intro ballI)
  fix row f
  assume row: "row \<in> set (processAllFiles rt texts)" and f: "f \<in> set ALL_CSV_FILES"
  have k: "key f \<in> key ` set ALL_CSV_FILES" using f by simp
  have "map_of (props row) (key f)
          = Some (Num (contribution rt (records (results_of texts)) (key f) (hour row)))"
    using final_cell [OF k] row by (simp add: processAllFiles_def)
  then show "(\<exists>n. map_of (props row) (key f) = Some (Num n))
     \<and> (filter (with_label rt (key f) (hour row)) (records (results_of texts)) = []
          \<longrightarrow> map_of (props row) (key f) = Some (Num 0))"
    by (simp add: contribution_def)
qed

lemma only_orders_rows:
  "processAllFiles utc_runtime only_orders =
     [\<lparr>hour = ''Jun-01 10:00'', sortTime = 1717236000000,
       props = [(''orders'', Num 7), (''labels'', Num 0), (''packers'', Num 0),
                (''pickers'', Num 0)]\<rparr>]"
  by code_simp

lemma only_orders_records:
  "records (results_of only_orders) =
     [(''orders'', \<lparr>timestamp = ''2024-06-01T10:15:00Z'', value = 7\<rparr>)]"
  by code_simp

theorem default_zero_invariant_witness:
  "length (processAllFiles utc_runtime only_orders) = 1
   \<and> map_of (props (hd (processAllFiles utc_runtime only_orders))) ''labels'' = Some (Num 0)"
proof -
  let ?f = "\<lparr>path = ''shipping_labels.csv'', key = ''labels'', name = ''Shipping Labels''\<rparr>"
  have f: "?f \<in> set ALL_CSV_FILES" by (simp add: ALL_CSV_FILES_def)
  have row: "hd (processAllFiles utc_runtime only_orders) \<in> set (processAllFiles utc_runtime only_orders)"
    by (simp add: only_orders_rows)
  have none: "filter (with_label utc_runtime (key ?f) (hour (hd (processAllFiles utc_runtime only_orders))))
          (records (results_of only_orders)) = []"
    by (simp add: only_orders_records with_label_def)
  from default_zero_invariant [of utc_runtime only_orders] row f none
  have "map_of (props (hd (processAllFiles utc_runtime only_orders))) (key ?f) = Some (Num 0)"
    by blast
  then show ?thesis by (simp add: only_orders_rows)
qed

text \<open>
  Claim C9, as amended. The finished series is non-decreasing in \<open>sortTime\<close> and holds
  exactly one row per distinct hour label (month, day and hour, without the year) among the
  records with a valid timestamp; two timestamps of the same hour bucket have the same label
  and so share a row.
\<close>

theorem master_series_shape:
  "sorted (map sortTime (finalChartData rt results))
   \<and> distinct (map hour (finalChartData rt results))
   \<and> set (map hour (finalChartData rt results))
        = {L. \<exists>rec \<in> set (records results). getHourlyKey rt (timestamp (snd rec)) = Some L}
   \<and> (hourBucket rt ts1 = hourBucket rt ts2 \<longrightarrow> getHourlyKey rt ts1 = getHourlyKey rt ts2)"
  using final_sorted [of rt results] final_distinct [of rt results] final_hours [of rt results]
    same_bucket_same_key [of rt ts1 ts2]
  by blast

lemma bucket_1015: "hourBucket utc_runtime ''2024-06-01T10:15:00Z'' = Some 1717236000000"
  by code_simp

lemma bucket_1050: "hourBucket utc_runtime ''2024-06-01T10:50:00Z'' = Some 1717236000000"
  by code_simp

theorem master_series_shape_witness:
  "hourBucket utc_runtime ''2024-06-01T10:15:00Z'' = hourBucket utc_runtime ''2024-06-01T10:50:00Z''
   \<and> getHourlyKey utc_runtime ''2024-06-01T10:15:00Z'' = getHourlyKey utc_runtime ''2024-06-01T10:50:00Z''"
  using master_series_shape [of utc_runtime two_orders "''2024-06-01T10:15:00Z''" "''2024-06-01T10:50:00Z''"]
  by (simp add: bucket_1015 bucket_1050)

text \<open>
  The claim as stated fails: two records a year apart lie in two distinct hour buckets, and
  the series has a single row for both.
\<close>

lemma year_apart_rows:
  "finalChartData utc_runtime year_apart =
     [\<lparr>hour = ''Oct-21 13:00'', sortTime = 1697893200000,
       props = [(''orders'', Num 3), (''labels'', Num 0), (''packers'', Num 0),
                (''pickers'', Num 0)]\<rparr>]"
  by code_simp

lemma year_apart_buckets:
  "map (\<lambda>rec. hourBucket utc_runtime (timestamp (snd rec))) (records year_apart) =
     [Some 1697893200000, Some 1729515600000]"
  by code_simp

theorem master_series_counterexample:
  "length (finalChartData utc_runtime year_apart) = 1
   \<and> remdups (map (\<lambda>rec. hourBucket utc_runtime (timestamp (snd rec))) (records year_apart))
       = [Some 1697893200000, Some 1729515600000]"
  by (simp add: year_apart_rows year_apart_buckets)

section \<open>The ten-day example of the time filter\<close>

lemma filter_drop:
  "(\<And>i. i < length xs \<Longrightarrow> P (xs ! i) \<longleftrightarrow> k \<le> i) \<Longrightarrow> filter P xs = drop k xs"
proof (induction xs arbitrary: k)
  case Nil
  show ?case by simp
next
  case (Cons x xs)
  show ?case
  proof (cases k)
    case 0
    have "\<forall>y \<in> set (x # xs). P y"
      using Cons.prems 0 by (metis in_set_conv_nth le0)
    then show ?thesis using 0 by simp
  next
    case (Suc j)
    have "\<not> P x" using Cons.prems [of 0] Suc by simp
    moreover have "filter P xs = drop j xs"
    proof (rule Cons.IH)
      fix i assume "i < length xs"
      then show "P (xs ! i) \<longleftrightarrow> j \<le> i" using Cons.prems [of "Suc i"] Suc by simp
    qed
    ultimately show ?thesis using Suc by simp
  qed
qed

lemma filteredData_daily:
  assumes len: "length rs = 10"
    and daily: "\<And>i. i < 10 \<Longrightarrow> sortTime (rs ! i) = t0 + int i * 86400000"
  shows "filteredData rs 3 = drop 6 rs"
proof -
  have ne: "rs \<noteq> []" using len by auto
  have last: "sortTime (last rs) = t0 + 9 * 86400000"
    using daily [of 9] len ne by (simp add: last_conv_nth)
  have "filter (\<lambda>item. sortTime (last rs) - 3 * 86400000 \<le> sortTime item) rs = drop 6 rs"
  proof (rule filter_drop)
    fix i assume "i < length rs"
    then have "i < 10" using len by simp
    then show "(sortTime (last rs) - 3 * 86400000 \<le> sortTime (rs ! i)) \<longleftrightarrow> 6 \<le> i"
      using daily [of i] last by auto
  qed
  then show ?thesis by (simp add: filteredData_filter)
qed

text \<open>
  Claim C1, as amended. The window is anchored at the \<open>sortTime\<close> of the last row of the
  series, whatever the current time is. For ten rows one day apart (the same time each
  day, as for 2024-01-01 to 2024-01-10) and a window of 3 days, the lower bound is the
  \<open>sortTime\<close> of the seventh row and is inclusive, so the result is the last four rows,
  those of 01-07, 01-08, 01-09 and 01-10.
\<close>

theorem filteredData_ten_days:
  assumes "length rs = 10"
    and "\<forall>i<10. sortTime (rs ! i) = t0 + int i * 86400000"
  shows "filteredData rs 3 = filter (\<lambda>item. sortTime (last rs) - 3 * 86400000 \<le> sortTime item) rs
         \<and> filteredData rs 3 = drop 6 rs"
  using assms filteredData_daily [of rs t0] filteredData_filter [of rs 3] by simp

lemma upt10: "[0..<10] = [0, 1, 2, 3, 4, 5, 6, 7, 8, 9 :: nat]"
  by code_simp

lemma jan_series_length: "length jan_series = 10"
  by (simp add: jan_series_def)

lemma jan_series_sortTime: "i < 10 \<Longrightarrow> sortTime (jan_series ! i) = 1704067200000 + int i * 86400000"
  by (simp add: jan_series_def jan_row_def newHour_def)

lemma jan_series_drop: "drop 6 jan_series = map jan_row [6, 7, 8, 9]"
  by (simp add: jan_series_def drop_map upt10)

theorem filteredData_ten_days_witness:
  "filteredData jan_series 3 = filter (\<lambda>item. sortTime (last jan_series) - 3 * 86400000 \<le> sortTime item) jan_series
         \<and> filteredData jan_series 3 = drop 6 jan_series"
proof -
  have len: "length jan_series = 10" by (rule jan_series_length)
  have daily: "\<forall>i<10. sortTime (jan_series ! i) = 1704067200000 + int i * 86400000"
    by (simp add: jan_series_sortTime)
  from filteredData_ten_days [OF len daily] show ?thesis .
qed

text \<open>
  The claim as stated fails: on the ten midnight rows of 2024-01-01 to 2024-01-10 the
  window of 3 days holds four rows, not the three of 01-08 to 01-10.
\<close>

theorem filteredData_three_rows_counterexample:
  "filteredData jan_series 3 = map jan_row [6, 7, 8, 9]
   \<and> filteredData jan_series 3 \<noteq> map jan_row [7, 8, 9]"
proof -
  have eq: "filteredData jan_series 3 = map jan_row [6, 7, 8, 9]"
    using filteredData_daily [of jan_series 1704067200000]
    by (simp add: jan_series_length jan_series_sortTime jan_series_drop)
  have "length (filteredData jan_series 3) \<noteq> length (map jan_row [7, 8, 9])"
    unfolding eq by simp
  then have "filteredData jan_series 3 \<noteq> map jan_row [7, 8, 9]" by metis
  with eq show ?thesis by simp
qed

section \<open>Properties of the retrying fetch\<close>

lemma toString_small [simp]:
  "toString 1 = ''1''" "toString 2 = ''2''" "toString 3 = ''3''" "toString 4 = ''4''"
  by code_simp+

lemma toString_500: "toString 500 = ''500''"
  by code_simp

lemma fetch_fail_fail_ok:
  assumes "tryFetch (net url 0) = Inl e0" "tryFetch (net url 1) = Inl e1"
    "tryFetch (net url 2) = Inr payload"
  shows "fetchWithRetry net url nm MAX_RETRIES =
     (Returns payload,
      \<lparr>warnings = [''Fetch attempt 1 for '' @ nm @ '' failed: '' @ e0 @ ''. Retrying in 1s...'',
                   ''Fetch attempt 2 for '' @ nm @ '' failed: '' @ e1 @ ''. Retrying in 2s...''],
       delays = [1000, 2000]\<rparr>)"
  using assms
  by (simp add: fetchWithRetry_def MAX_RETRIES_def INITIAL_DELAY_MS_def Let_def numeral_2_eq_2)

lemma fetch_fail_all:
  assumes "tryFetch (net url 0) = Inl e0" "tryFetch (net url 1) = Inl e1"
    "tryFetch (net url 2) = Inl e2"
  shows "fetchWithRetry net url nm MAX_RETRIES =
     (Throws (''Failed to fetch '' @ nm @ '' after 3 attempts.''),
      \<lparr>warnings = [''Fetch attempt 1 for '' @ nm @ '' failed: '' @ e0 @ ''. Retrying in 1s...'',
                   ''Fetch attempt 2 for '' @ nm @ '' failed: '' @ e1 @ ''. Retrying in 2s...'',
                   ''Fetch attempt 3 for '' @ nm @ '' failed: '' @ e2 @ ''. Retrying in 4s...''],
       delays = [1000, 2000]\<rparr>)"
  using assms
  by (simp add: fetchWithRetry_def MAX_RETRIES_def INITIAL_DELAY_MS_def Let_def numeral_2_eq_2)

lemma fetch_v2_fail_fail_ok:
  assumes "tryFetch (net url 0) = Inl e0" "tryFetch (net url 1) = Inl e1"
    "tryFetch (net url 2) = Inr payload"
  shows "fetchWithRetry_v2 net url nm 3 =
     (Returns payload,
      \<lparr>warnings = [''Fetch attempt 1 for '' @ nm @ '' failed. Retrying...'',
                   ''Fetch attempt 2 for '' @ nm @ '' failed. Retrying...''],
       delays = [1000, 2000]\<rparr>)"
  using assms
  by (simp add: fetchWithRetry_v2_def Let_def numeral_2_eq_2)

lemma fetch_v2_fail_all:
  assumes "tryFetch (net url 0) = Inl e0" "tryFetch (net url 1) = Inl e1"
    "tryFetch (net url 2) = Inl e2"
  shows "fetchWithRetry_v2 net url nm 3 =
     (Throws e2,
      \<lparr>warnings = [''Fetch attempt 1 for '' @ nm @ '' failed. Retrying...'',
                   ''Fetch attempt 2 for '' @ nm @ '' failed. Retrying...'',
                   ''Fetch attempt 3 for '' @ nm @ '' failed. Retrying...''],
       delays = [1000, 2000]\<rparr>)"
  using assms
  by (simp add: fetchWithRetry_v2_def Let_def numeral_2_eq_2)


lemma tryFetch_500: "tryFetch (net_500 url i) = Inl ''HTTP Error 500: Internal Server Error''"
  by (simp add: tryFetch_def net_500_def failing500_def toString_500)

lemma tryFetch_down: "tryFetch (net_down url i) = Inl ''Failed to fetch''"
  by (simp add: tryFetch_def net_down_def)

lemma tryFetch_third_fail:
  "i < 2 \<Longrightarrow> tryFetch (net_third url i) = Inl ''HTTP Error 500: Internal Server Error''"
  by (simp add: tryFetch_def net_third_def failing500_def toString_500)

lemma tryFetch_third_ok: "2 \<le> i \<Longrightarrow> tryFetch (net_third url i) = Inr ''timestamp,value''"
  by (simp add: tryFetch_def net_third_def)

text \<open>
  Claim C3. With the configured three attempts, in both copies of the function: when the
  first two attempts fail and the third succeeds, the call returns the text of the third
  after exactly the delays 1000 and 2000; when all three attempts fail, it throws after
  exactly the delays 1000 and 2000, with no delay after the last failure.
\<close>

theorem retry_backoff_schedule:
  "(tryFetch (net url 0) = Inl e0 \<and> tryFetch (net url 1) = Inl e1
      \<and> tryFetch (net url 2) = Inr payload \<longrightarrow>
      fst (fetchWithRetry net url nm MAX_RETRIES) = Returns payload
      \<and> delays (snd (fetchWithRetry net url nm MAX_RETRIES)) = [1000, 2000]
      \<and> fst (fetchWithRetry_v2 net url nm 3) = Returns payload
      \<and> delays (snd (fetchWithRetry_v2 net url nm 3)) = [1000, 2000])
   \<and> (tryFetch (net url 0) = Inl e0 \<and> tryFetch (net url 1) = Inl e1
      \<and> tryFetch (net url 2) = Inl e2 \<longrightarrow>
      (\<exists>msg. fst (fetchWithRetry net url nm MAX_RETRIES) = Throws msg)
      \<and> delays (snd (fetchWithRetry net url nm MAX_RETRIES)) = [1000, 2000]
      \<and> (\<exists>msg. fst (fetchWithRetry_v2 net url nm 3) = Throws msg)
      \<and> delays (snd (fetchWithRetry_v2 net url nm 3)) = [1000, 2000])"
proof (intro conjI impI)
  assume a: "tryFetch (net url 0) = Inl e0 \<and> tryFetch (net url 1) = Inl e1
      \<and> tryFetch (net url 2) = Inr payload"
  then have a0: "tryFetch (net url 0) = Inl e0" and a1: "tryFetch (net url 1) = Inl e1"
    and a2: "tryFetch (net url 2) = Inr payload" by simp_all
  show "fst (fetchWithRetry net url nm MAX_RETRIES) = Returns payload"
    by (simp add: fetch_fail_fail_ok [where net = net and url = url, OF a0 a1 a2])
  show "delays (snd (fetchWithRetry net url nm MAX_RETRIES)) = [1000, 2000]"
    by (simp add: fetch_fail_fail_ok [where net = net and url = url, OF a0 a1 a2])
  show "fst (fetchWithRetry_v2 net url nm 3) = Returns payload"
    by (simp add: fetch_v2_fail_fail_ok [where net = net and url = url, OF a0 a1 a2])
  show "delays (snd (fetchWithRetry_v2 net url nm 3)) = [1000, 2000]"
    by (simp add: fetch_v2_fail_fail_ok [where net = net and url = url, OF a0 a1 a2])
next
  assume a: "tryFetch (net url 0) = Inl e0 \<and> tryFetch (net url 1) = Inl e1
      \<and> tryFetch (net url 2) = Inl e2"
  then have a0: "tryFetch (net url 0) = Inl e0" and a1: "tryFetch (net url 1) = Inl e1"
    and a2: "tryFetch (net url 2) = Inl e2" by simp_all
  show "\<exists>msg. fst (fetchWithRetry net url nm MAX_RETRIES) = Throws msg"
    by (simp add: fetch_fail_all [where net = net and url = url, OF a0 a1 a2])
  show "delays (snd (fetchWithRetry net url nm MAX_RETRIES)) = [1000, 2000]"
    by (simp add: fetch_fail_all [where net = net and url = url, OF a0 a1 a2])
  show "\<exists>msg. fst (fetchWithRetry_v2 net url nm 3) = Throws msg"
    by (simp add: fetch_v2_fail_all [where net = net and url = url, OF a0 a1 a2])
  show "delays (snd (fetchWithRetry_v2 net url nm 3)) = [1000, 2000]"
    by (simp add: fetch_v2_fail_all [where net = net and url = url, OF a0 a1 a2])
qed

theorem retry_backoff_schedule_witness:
  "fst (fetchWithRetry net_third ''orders.csv'' ''Orders'' MAX_RETRIES) = Returns ''timestamp,value''
   \<and> delays (snd (fetchWithRetry net_third ''orders.csv'' ''Orders'' MAX_RETRIES)) = [1000, 2000]
   \<and> (\<exists>msg. fst (fetchWithRetry net_500 ''orders.csv'' ''Orders'' MAX_RETRIES) = Throws msg)
   \<and> delays (snd (fetchWithRetry net_500 ''orders.csv'' ''Orders'' MAX_RETRIES)) = [1000, 2000]"
proof -
  have third: "tryFetch (net_third ''orders.csv'' 0) = Inl ''HTTP Error 500: Internal Server Error''
      \<and> tryFetch (net_third ''orders.csv'' 1) = Inl ''HTTP Error 500: Internal Server Error''
      \<and> tryFetch (net_third ''orders.csv'' 2) = Inr ''timestamp,value''"
    by (simp add: tryFetch_third_fail tryFetch_third_ok)
  have never: "tryFetch (net_500 ''orders.csv'' 0) = Inl ''HTTP Error 500: Internal Server Error''
      \<and> tryFetch (net_500 ''orders.csv'' 1) = Inl ''HTTP Error 500: Internal Server Error''
      \<and> tryFetch (net_500 ''orders.csv'' 2) = Inl ''HTTP Error 500: Internal Server Error''"
    by (simp add: tryFetch_500)
  from third never
    retry_backoff_schedule [where net = net_third and url = "''orders.csv''" and nm = "''Orders''"
      and ?e0.0 = "''HTTP Error 500: Internal Server Error''"
      and ?e1.0 = "''HTTP Error 500: Internal Server Error''"
      and payload = "''timestamp,value''"]
    retry_backoff_schedule [where net = net_500 and url = "''orders.csv''" and nm = "''Orders''"
      and ?e0.0 = "''HTTP Error 500: Internal Server Error''"
      and ?e1.0 = "''HTTP Error 500: Internal Server Error''"
      and ?e2.0 = "''HTTP Error 500: Internal Server Error''"]
  show ?thesis by blast
qed

text \<open>
  Claim C4, as amended. When all three attempts fail, \<open>fetchWithRetry\<close> of \<open>src/App.jsx\<close>
  throws an error whose message names the resource and the configured number of attempts
  and nothing else; the cause of every failed attempt is written to the warning log. The
  second copy throws the cause of the last attempt itself, and names the resource and the
  attempt number in the warning log only.
\<close>

theorem fetch_error_content:
  assumes "tryFetch (net url 0) = Inl e0" "tryFetch (net url 1) = Inl e1"
    "tryFetch (net url 2) = Inl e2"
  shows "fetchWithRetry net url nm MAX_RETRIES =
     (Throws (''Failed to fetch '' @ nm @ '' after 3 attempts.''),
      \<lparr>warnings = [''Fetch attempt 1 for '' @ nm @ '' failed: '' @ e0 @ ''. Retrying in 1s...'',
                   ''Fetch attempt 2 for '' @ nm @ '' failed: '' @ e1 @ ''. Retrying in 2s...'',
                   ''Fetch attempt 3 for '' @ nm @ '' failed: '' @ e2 @ ''. Retrying in 4s...''],
       delays = [1000, 2000]\<rparr>)
   \<and> fetchWithRetry_v2 net url nm 3 =
     (Throws e2,
      \<lparr>warnings = [''Fetch attempt 1 for '' @ nm @ '' failed. Retrying...'',
                   ''Fetch attempt 2 for '' @ nm @ '' failed. Retrying...'',
                   ''Fetch attempt 3 for '' @ nm @ '' failed. Retrying...''],
       delays = [1000, 2000]\<rparr>)"
  using fetch_fail_all [where net = net and url = url, OF assms] fetch_v2_fail_all [where net = net and url = url, OF assms] by simp

theorem fetch_error_content_witness:
  "fetchWithRetry net_500 ''orders.csv'' ''Orders'' MAX_RETRIES =
     (Throws ''Failed to fetch Orders after 3 attempts.'',
      \<lparr>warnings =
         [''Fetch attempt 1 for Orders failed: HTTP Error 500: Internal Server Error. Retrying in 1s...'',
          ''Fetch attempt 2 for Orders failed: HTTP Error 500: Internal Server Error. Retrying in 2s...'',
          ''Fetch attempt 3 for Orders failed: HTTP Error 500: Internal Server Error. Retrying in 4s...''],
       delays = [1000, 2000]\<rparr>)
   \<and> fetchWithRetry_v2 net_500 ''orders.csv'' ''Orders'' 3 =
     (Throws ''HTTP Error 500: Internal Server Error'',
      \<lparr>warnings = [''Fetch attempt 1 for Orders failed. Retrying...'',
                   ''Fetch attempt 2 for Orders failed. Retrying...'',
                   ''Fetch attempt 3 for Orders failed. Retrying...''],
       delays = [1000, 2000]\<rparr>)"
  using fetch_error_content [where net = net_500 and url = "''orders.csv''" and nm = "''Orders''",
      OF tryFetch_500 tryFetch_500 tryFetch_500]
  by simp

text \<open>
  The claim as stated fails: a server error and a network failure end in the same thrown
  error in \<open>src/App.jsx\<close>, so the error does not keep the cause; and the error of the second
  copy is the same for two different resources, so it does not name the resource.
\<close>

theorem fetch_error_detail_counterexample:
  "tryFetch (net_500 ''orders.csv'' 2) = Inl ''HTTP Error 500: Internal Server Error''
   \<and> tryFetch (net_down ''orders.csv'' 2) = Inl ''Failed to fetch''
   \<and> fst (fetchWithRetry net_500 ''orders.csv'' ''Orders'' MAX_RETRIES)
       = Throws ''Failed to fetch Orders after 3 attempts.''
   \<and> fst (fetchWithRetry net_down ''orders.csv'' ''Orders'' MAX_RETRIES)
       = Throws ''Failed to fetch Orders after 3 attempts.''
   \<and> fst (fetchWithRetry_v2 net_500 ''orders.csv'' ''Orders'' 3)
       = Throws ''HTTP Error 500: Internal Server Error''
   \<and> fst (fetchWithRetry_v2 net_500 ''orders.csv'' ''Shipping Labels'' 3)
       = Throws ''HTTP Error 500: Internal Server Error''"
  using
    fetch_fail_all [where net = net_500 and url = "''orders.csv''" and nm = "''Orders''",
      OF tryFetch_500 tryFetch_500 tryFetch_500]
    fetch_fail_all [where net = net_down and url = "''orders.csv''" and nm = "''Orders''",
      OF tryFetch_down tryFetch_down tryFetch_down]
    fetch_v2_fail_all [where net = net_500 and url = "''orders.csv''" and nm = "''Orders''",
      OF tryFetch_500 tryFetch_500 tryFetch_500]
    fetch_v2_fail_all [where net = net_500 and url = "''orders.csv''" and nm = "''Shipping Labels''",
      OF tryFetch_500 tryFetch_500 tryFetch_500]
  by (simp add: tryFetch_500 tryFetch_down)

section \<open>Properties of the CSV parser\<close>

lemma split_nonempty: "split c s \<noteq> []"
  by (induction s) (auto split: list.splits)

lemma split_no_separator: "c \<notin> set s \<Longrightarrow> split c s = [s]"
  by (induction s) auto

lemma set_trim: "set (trim s) \<subseteq> set s"
proof -
  have "set (trim s) \<subseteq> set (rev (dropWhile is_ws s))"
    unfolding trim_def by (metis set_dropWhileD set_rev subsetI)
  also have "\<dots> \<subseteq> set s" by (auto dest: set_dropWhileD)
  finally show ?thesis .
qed

lemma parseCSV_rows:
  "parseCSV s = filter (\<lambda>item. timestamp item \<noteq> []) (map parseLine (tl (split CHR 0x0A (trim s))))"
proof (cases "s = []")
  case True
  then show ?thesis by (simp add: parseCSV_def trim_def)
next
  case False
  show ?thesis
  proof (cases "length (split CHR 0x0A (trim s)) < 2")
    case True
    then have "tl (split CHR 0x0A (trim s)) = []"
      by (cases "split CHR 0x0A (trim s)") (auto split: list.splits)
    then show ?thesis using True False by (simp add: parseCSV_def)
  next
    case less: False
    then show ?thesis using False by (simp add: parseCSV_def Let_def drop_Suc)
  qed
qed

lemma parseCSV_few_lines: "length (split CHR 0x0A (trim s)) < 2 \<Longrightarrow> parseCSV s = []"
  by (simp add: parseCSV_def)

lemma parseCSV_one_line: "CHR 0x0A \<notin> set s \<Longrightarrow> parseCSV s = []"
proof -
  assume "CHR 0x0A \<notin> set s"
  then have "CHR 0x0A \<notin> set (trim s)" using set_trim [of s] by auto
  then have "split CHR 0x0A (trim s) = [trim s]" by (rule split_no_separator)
  then show ?thesis by (simp add: parseCSV_few_lines)
qed

lemma parseCSV_p6:
  "parseCSV p6_input =
     [\<lparr>timestamp = ''2024-01-01T00:00:00Z'', value = 5\<rparr>,
      \<lparr>timestamp = ''2024-01-01T01:00:00Z'', value = 0\<rparr>]"
  by code_simp

text \<open>
  Claim C5. \<open>parseCSV\<close> is a total function of the text: every line after the first is
  turned into a record on its own and the lines without a usable timestamp are left out,
  so a bad line never affects another. The empty text, a text without a line break and a
  text with fewer than two lines after trimming give no record. On the input of property
  P6 the result is the two records stated there: the one-field line and the line with the
  empty timestamp are dropped, and the value that is not a number becomes 0.
\<close>

theorem parseCSV_robust:
  "parseCSV s = filter (\<lambda>item. timestamp item \<noteq> []) (map parseLine (tl (split CHR 0x0A (trim s))))
   \<and> parseCSV [] = []
   \<and> (CHR 0x0A \<notin> set s \<longrightarrow> parseCSV s = [])
   \<and> (length (split CHR 0x0A (trim s)) < 2 \<longrightarrow> parseCSV s = [])
   \<and> parseCSV p6_input =
        [\<lparr>timestamp = ''2024-01-01T00:00:00Z'', value = 5\<rparr>,
         \<lparr>timestamp = ''2024-01-01T01:00:00Z'', value = 0\<rparr>]"
  using parseCSV_rows [of s] parseCSV_one_line [of s] parseCSV_few_lines [of s] parseCSV_p6
  by (simp add: parseCSV_def)

lemma header_lines: "length (split CHR 0x0A (trim ''timestamp,value'')) = 1"
  by code_simp

theorem parseCSV_robust_witness:
  "CHR 0x0A \<notin> set ''timestamp,value''
   \<and> length (split CHR 0x0A (trim ''timestamp,value'')) < 2
   \<and> parseCSV ''timestamp,value'' = []"
proof -
  have a: "CHR 0x0A \<notin> set ''timestamp,value''" by simp
  have b: "length (split CHR 0x0A (trim ''timestamp,value'')) < 2" by (simp add: header_lines)
  from a b parseCSV_robust [of "''timestamp,value''"] show ?thesis by blast
qed

section \<open>Properties of the summary statistics\<close>








section \<open>The peak day\<close>

lemma dailyMap_collect_item:
  "dailyMap (collect_item acc item) =
     (if sortTime item \<noteq> 0 then
        AList.update (dateKey (sortTime item))
          \<lparr>orders = orders (case map_of (dailyMap acc) (dateKey (sortTime item)) of
                               None \<Rightarrow> \<lparr>orders = 0, labels = 0\<rparr> | Some c \<Rightarrow> c) + item_orders item,
           labels = labels (case map_of (dailyMap acc) (dateKey (sortTime item)) of
                               None \<Rightarrow> \<lparr>orders = 0, labels = 0\<rparr> | Some c \<Rightarrow> c) + item_labels item\<rparr>
          (dailyMap acc)
      else dailyMap acc)"
  by (simp add: collect_item_def Let_def)

lemma collect_snoc: "collect (data @ [item]) = collect_item (collect data) item"
  by (simp add: collect_def)

lemma dailyMap_collect:
  "map_of (dailyMap (collect data)) d =
     (if filter (on_day d) data = [] then None
      else Some \<lparr>orders = day_total item_orders data d, labels = day_total item_labels data d\<rparr>)"
proof (induction data rule: rev_induct)
  case Nil
  show ?case by (simp add: collect_def)
next
  case (snoc item data)
  show ?case
  proof (cases "sortTime item \<noteq> 0")
    case False
    then have "\<not> on_day d item" by (simp add: on_day_def)
    then show ?thesis using False snoc
      by (simp add: collect_snoc dailyMap_collect_item day_total_def)
  next
    case True
    show ?thesis
    proof (cases "dateKey (sortTime item) = d")
      case False
      then have "\<not> on_day d item" by (simp add: on_day_def)
      then show ?thesis using False True snoc
        by (simp add: collect_snoc dailyMap_collect_item day_total_def update_conv')
    next
      case same: True
      then have on: "on_day d item" using True by (simp add: on_day_def)
      show ?thesis using on same True snoc
        by (simp add: collect_snoc dailyMap_collect_item day_total_def update_conv')
    qed
  qed
qed

lemma dailyMap_distinct: "distinct (map fst (dailyMap (collect data)))"
proof (induction data rule: rev_induct)
  case Nil
  show ?case by (simp add: collect_def)
next
  case (snoc item data)
  then show ?case by (simp add: collect_snoc dailyMap_collect_item distinct_update)
qed

lemma dailyMap_entry:
  assumes "day \<in> set (dailyMap (collect data))"
  shows "orders (snd day) = day_total item_orders data (fst day)"
    and "labels (snd day) = day_total item_labels data (fst day)"
proof -
  have "map_of (dailyMap (collect data)) (fst day) = Some (snd day)"
    using assms dailyMap_distinct [of data] by simp
  then have "snd day = \<lparr>orders = day_total item_orders data (fst day),
                         labels = day_total item_labels data (fst day)\<rparr>"
    unfolding dailyMap_collect by (simp split: if_splits)
  then show "orders (snd day) = day_total item_orders data (fst day)"
    and "labels (snd day) = day_total item_labels data (fst day)"
    by (metis daycounts.select_convs(1), metis daycounts.select_convs(2))
qed

lemma peak_orders_kept:
  "(\<And>day. day \<in> set days \<Longrightarrow> orders (snd day) \<le> count_p (fst maxima)) \<Longrightarrow>
   fst (foldl (peak_step rt) maxima days) = fst maxima"
proof (induction days arbitrary: maxima)
  case Nil
  show ?case by simp
next
  case (Cons day days)
  have step: "fst (peak_step rt maxima day) = fst maxima"
    using Cons.prems [of day] by (simp add: peak_step_def Let_def)
  have "fst (foldl (peak_step rt) (peak_step rt maxima day) days) = fst (peak_step rt maxima day)"
    by (rule Cons.IH) (use Cons.prems step in simp)
  then show ?case using step by simp
qed

lemma peak_labels_kept:
  "(\<And>day. day \<in> set days \<Longrightarrow> labels (snd day) \<le> count_p (snd maxima)) \<Longrightarrow>
   snd (foldl (peak_step rt) maxima days) = snd maxima"
proof (induction days arbitrary: maxima)
  case Nil
  show ?case by simp
next
  case (Cons day days)
  have step: "snd (peak_step rt maxima day) = snd maxima"
    using Cons.prems [of day] by (simp add: peak_step_def Let_def)
  have "snd (foldl (peak_step rt) (peak_step rt maxima day) days) = snd (peak_step rt maxima day)"
    by (rule Cons.IH) (use Cons.prems step in simp)
  then show ?case using step by simp
qed

lemma zero_peak_orders:
  assumes "data \<noteq> []" and "\<And>d. day_total item_orders data d = 0"
  shows "maxDailyOrders (aggregates rt data) = \<lparr>count_p = 0, date = ''N/A'', dayName = Some ''N/A''\<rparr>"
proof -
  let ?init = "(\<lparr>count_p = 0, date = ''N/A'', dayName = Some ''N/A''\<rparr>,
                \<lparr>count_p = 0, date = ''N/A'', dayName = Some ''N/A''\<rparr>)"
  have "fst (foldl (peak_step rt) ?init (dailyMap (collect data))) = fst ?init"
  proof (rule peak_orders_kept)
    fix day assume "day \<in> set (dailyMap (collect data))"
    then show "orders (snd day) \<le> count_p (fst ?init)"
      using dailyMap_entry(1) [of day data] assms(2) by simp
  qed
  then show ?thesis using assms(1) by (simp add: aggregates_def Let_def)
qed

lemma zero_peak_labels:
  assumes "data \<noteq> []" and "\<And>d. day_total item_labels data d = 0"
  shows "maxDailyLabels (aggregates rt data) = \<lparr>count_p = 0, date = ''N/A'', dayName = Some ''N/A''\<rparr>"
proof -
  let ?init = "(\<lparr>count_p = 0, date = ''N/A'', dayName = Some ''N/A''\<rparr>,
                \<lparr>count_p = 0, date = ''N/A'', dayName = Some ''N/A''\<rparr>)"
  have "snd (foldl (peak_step rt) ?init (dailyMap (collect data))) = snd ?init"
  proof (rule peak_labels_kept)
    fix day assume "day \<in> set (dailyMap (collect data))"
    then show "labels (snd day) \<le> count_p (snd ?init)"
      using dailyMap_entry(2) [of day data] assms(2) by simp
  qed
  then show ?thesis using assms(1) by (simp add: aggregates_def Let_def)
qed

text \<open>
  Claim C10. For a non-empty series in which the orders of every UTC calendar day sum to
  0, the peak day of orders has the count 0 and the date \<open>N/A\<close>: a day replaces the initial
  maximum of count 0 only when its sum is strictly greater, so no day is selected although
  rows exist. The same holds for labels. (In \<open>src/App.jsx\<close> the initial object, which is the
  result here, also carries \<open>dayName\<close> set to \<open>N/A\<close>.)
\<close>

theorem zero_peak:
  "(data \<noteq> [] \<and> (\<forall>d. day_total item_orders data d = 0) \<longrightarrow>
      count_p (maxDailyOrders (aggregates rt data)) = 0
      \<and> date (maxDailyOrders (aggregates rt data)) = ''N/A'')
   \<and> (data \<noteq> [] \<and> (\<forall>d. day_total item_labels data d = 0) \<longrightarrow>
      count_p (maxDailyLabels (aggregates rt data)) = 0
      \<and> date (maxDailyLabels (aggregates rt data)) = ''N/A'')"
  using zero_peak_orders [of data rt] zero_peak_labels [of data rt] by simp

lemma quiet_totals:
  "day_total item_orders [quiet_row] d = 0" "day_total item_labels [quiet_row] d = 0"
  by (simp_all add: day_total_def item_orders_def item_labels_def or0_def quiet_row_def)

lemma quiet_day: "dailyMap (collect [quiet_row]) = [(''2024-01-01'', \<lparr>orders = 0, labels = 0\<rparr>)]"
  by code_simp

theorem zero_peak_witness:
  "[quiet_row] \<noteq> []
   \<and> dailyMap (collect [quiet_row]) = [(''2024-01-01'', \<lparr>orders = 0, labels = 0\<rparr>)]
   \<and> count_p (maxDailyOrders (aggregates utc_runtime [quiet_row])) = 0
   \<and> date (maxDailyOrders (aggregates utc_runtime [quiet_row])) = ''N/A''
   \<and> count_p (maxDailyLabels (aggregates utc_runtime [quiet_row])) = 0
   \<and> date (maxDailyLabels (aggregates utc_runtime [quiet_row])) = ''N/A''"
proof -
  have ne: "[quiet_row] \<noteq> []" by simp
  have o: "\<forall>d. day_total item_orders [quiet_row] d = 0" by (simp add: quiet_totals)
  have l: "\<forall>d. day_total item_labels [quiet_row] d = 0" by (simp add: quiet_totals)
  from zero_peak [of "[quiet_row]" utc_runtime] ne o l quiet_day show ?thesis by blast
qed

end
